theory Spec2Isabelle
  imports Main
begin

section \<open>Values, exceptions and the module state of \<open>api.py\<close>\<close>

text \<open>
  Python \<open>bytes\<close> and \<open>str\<close> are both modelled as \<open>string\<close> (a list of 8-bit
  characters); a \<open>str\<close> is therefore restricted to code points below 256.
\<close>

type_synonym bytes = string

definition LF :: char where "LF = CHR 0x0A"
definition CR :: char where "CR = CHR 0x0D"

text \<open>
  The exceptions the modelled code raises. \<open>SystemExit\<close> is what \<open>sys.exit\<close> raises:
  left uncaught it ends the process with the given exit code.
\<close>

datatype exc =
    RuntimeError string
  | ValueError string
  | AttributeError string
  | APIError string
  | SystemExit int

datatype 'a outcome = Return 'a | Raise exc

text \<open>The handle returned by \<open>client.containers.run\<close>; opaque to this code.\<close>

datatype container = Container string

text \<open>The value of one entry of \<open>buildtime_volumes\<close>: \<open>{'bind': ..., 'mode': ...}\<close>.\<close>

record volume_bind =
  bind :: string
  mode :: string

text \<open>
  The module-level variables of \<open>api.py\<close> (lines 52 to 59). The variables \<open>_workdir\<close>,
  \<open>_cmd\<close>, ... are named \<open>v_workdir\<close>, \<open>v_cmd\<close>, ... here. \<open>None\<close> is Python's \<open>None\<close>.
\<close>

record globals =
  container :: "container option"
  buildtime_volumes :: "string \<rightharpoonup> volume_bind"
  v_workdir :: "string option"
  v_cmd :: "string list option"
  v_entrypoint :: "string list option"
  v_user :: "string option"
  v_expose :: "string list"
  v_volumes :: "string list"

text \<open>The state right after the module is imported.\<close>

definition initial :: globals where
  "initial = \<lparr> container = None, buildtime_volumes = Map.empty, v_workdir = None,
     v_cmd = None, v_entrypoint = None, v_user = None, v_expose = [], v_volumes = [] \<rparr>"

text \<open>
  A command argument is either a single shell string or an argument vector
  (\<open>isinstance(cmd, str)\<close> decides).
\<close>

datatype command = Shell string | Argv "string list"

text \<open>\<open>if isinstance(cmd, str): cmd = ['bash', '-c', cmd]\<close>\<close>

fun argv :: "command \<Rightarrow> string list" where
  "argv (Shell s) = [''bash'', ''-c'', s]"
| "argv (Argv xs) = xs"

text \<open>Truthiness of an optional string: \<open>None\<close> and \<open>''\<close> are false.\<close>

fun truthy :: "string option \<Rightarrow> bool" where
  "truthy None = False"
| "truthy (Some s) = (s \<noteq> [])"


section \<open>\<open>json.dumps\<close> on strings and lists of strings\<close>

text \<open>
  The standard encoder with its default \<open>ensure_ascii=True\<close>: inside the quotes a
  backslash, a double quote and every character outside \<open>' '..'~'\<close> is escaped, the
  latter as \<open>\b \f \n \r \t\<close> or as \<open>\u00xx\<close>. List items are separated by \<open>', '\<close>.
\<close>

definition hex_digit :: "nat \<Rightarrow> char" where
  "hex_digit d = ''0123456789abcdef'' ! (d mod 16)"

definition json_escape :: "char \<Rightarrow> string" where
  "json_escape c =
     (if c = CHR 0x5C then [CHR 0x5C, CHR 0x5C]
      else if c = CHR 0x22 then [CHR 0x5C, CHR 0x22]
      else if c = CHR 0x08 then [CHR 0x5C, CHR ''b'']
      else if c = CHR 0x0C then [CHR 0x5C, CHR ''f'']
      else if c = CHR 0x0A then [CHR 0x5C, CHR ''n'']
      else if c = CHR 0x0D then [CHR 0x5C, CHR ''r'']
      else if c = CHR 0x09 then [CHR 0x5C, CHR ''t'']
      else if 0x20 \<le> (of_char c :: nat) \<and> (of_char c :: nat) \<le> 0x7E then [c]
      else [CHR 0x5C, CHR ''u'', CHR ''0'', CHR ''0'',
            hex_digit (of_char c div 16), hex_digit (of_char c mod 16)])"

definition json_dumps_str :: "string \<Rightarrow> string" where
  "json_dumps_str s = [CHR 0x22] @ concat (map json_escape s) @ [CHR 0x22]"

fun join :: "string \<Rightarrow> string list \<Rightarrow> string" where
  "join sep [] = []"
| "join sep [x] = x"
| "join sep (x # y # ys) = x @ sep @ join sep (y # ys)"

definition json_dumps_list :: "string list \<Rightarrow> string" where
  "json_dumps_list xs = ''['' @ join '', '' (map json_dumps_str xs) @ '']''"


section \<open>The build context: \<open>new\<close>\<close>

text \<open>The arguments \<open>new\<close> passes to \<open>client.containers.run\<close>.\<close>

record run_request =
  r_image :: string
  r_command :: "string list"
  r_name :: string
  r_auto_remove :: bool
  r_detach :: bool
  r_volumes :: "string \<rightharpoonup> volume_bind"

text \<open>
  Modelled from the spec: \<open>utils.merge_dictionary\<close> is a module of this repository that
  is not among the sources. The spec says the mount configuration is the union of the
  buildtime volumes and the session-specific volumes, the buildtime entries taking lower
  precedence (a session-supplied entry overrides on key collision).
\<close>

definition merge_dictionary ::
  "(string \<rightharpoonup> volume_bind) \<Rightarrow> (string \<rightharpoonup> volume_bind) \<Rightarrow> (string \<rightharpoonup> volume_bind)" where
  "merge_dictionary a b = a ++ b"

text \<open>
  The \<open>finally\<close> clause of \<open>new\<close> (lines 91 to 104). \<open>container.kill()\<close> acts on the
  daemon; it is the parameter \<open>docker_kill\<close>, which returns (\<open>None\<close>) or raises. An
  \<open>APIError\<close> is swallowed; any other exception leaves the clause at once, before
  \<open>container = None\<close> and the resets, and the state stays as it is. Otherwise the clause
  declares \<open>_workdir, _cmd, _entrypoint, _user, _expose\<close> global and resets those five.
\<close>

definition new_finally :: "(container \<Rightarrow> exc option) \<Rightarrow> globals \<Rightarrow> exc option \<times> globals" where
  "new_finally docker_kill st =
     (case (case container st of
              None \<Rightarrow> None
            | Some c \<Rightarrow> (case docker_kill c of Some (APIError m) \<Rightarrow> None | r \<Rightarrow> r)) of
        Some e \<Rightarrow> (Some e, st)
      | None \<Rightarrow>
          (None, st\<lparr> container := None, v_workdir := None, v_cmd := None,
                   v_entrypoint := None, v_user := None, v_expose := [] \<rparr>))"

text \<open>
  \<open>with new(image, command, volumes=...): body\<close>. The daemon is the parameters
  \<open>docker_run\<close>, which returns a container or raises, and \<open>docker_kill\<close>; \<open>uuid8\<close> stands
  for \<open>str(uuid.uuid4())[:8]\<close>. The nesting check comes before the \<open>try\<close>, so it raises
  without running the \<open>finally\<close> clause. The body is any computation on the module state;
  whether it returns or raises, the \<open>finally\<close> clause runs after it, and an exception
  that leaves the \<open>finally\<close> clause replaces the outcome of the body.
\<close>

definition new ::
  "(run_request \<Rightarrow> exc + container) \<Rightarrow> (container \<Rightarrow> exc option) \<Rightarrow> string \<Rightarrow> string \<Rightarrow>
   string list \<Rightarrow> (string \<rightharpoonup> volume_bind) \<Rightarrow> (globals \<Rightarrow> 'a outcome \<times> globals) \<Rightarrow>
   globals \<Rightarrow> 'a outcome \<times> globals" where
  "new docker_run docker_kill uuid8 img command volumes body st =
     (if container st \<noteq> None then (Raise (RuntimeError ''new() can not be nested''), st)
      else
        (case (case docker_run \<lparr> r_image = img, r_command = command,
                      r_name = ''dib-temp-'' @ uuid8, r_auto_remove = True, r_detach = True,
                      r_volumes = merge_dictionary (buildtime_volumes st) volumes \<rparr> of
                 Inl e \<Rightarrow> (Raise e, st)
               | Inr c \<Rightarrow> body (st\<lparr> container := Some c \<rparr>)) of
           (r, st') \<Rightarrow>
             (case new_finally docker_kill st' of
                (Some e, st'') \<Rightarrow> (Raise e, st'')
              | (None, st'') \<Rightarrow> (r, st''))))"


section \<open>Metadata mutation\<close>

text \<open>
  Each mutator checks \<open>if not container\<close> first and raises; otherwise it assigns one
  module variable or appends to one list. What the mutators print is not modelled.
\<close>

definition workdir :: "string \<Rightarrow> globals \<Rightarrow> unit outcome \<times> globals" where
  "workdir path st =
     (if container st = None
      then (Raise (RuntimeError ''workdir() can not be used outside of a build context''), st)
      else (Return (), st\<lparr> v_workdir := Some path \<rparr>))"

definition cmd :: "command \<Rightarrow> globals \<Rightarrow> unit outcome \<times> globals" where
  "cmd c st =
     (if container st = None
      then (Raise (RuntimeError ''cmd() can not be used outside of a build context''), st)
      else (Return (), st\<lparr> v_cmd := Some (argv c) \<rparr>))"

definition entrypoint :: "command \<Rightarrow> globals \<Rightarrow> unit outcome \<times> globals" where
  "entrypoint c st =
     (if container st = None
      then (Raise (RuntimeError ''entrypoint() can not be used outside of a build context''), st)
      else (Return (), st\<lparr> v_entrypoint := Some (argv c) \<rparr>))"

definition user :: "string \<Rightarrow> string option \<Rightarrow> globals \<Rightarrow> unit outcome \<times> globals" where
  "user name grp st =
     (if container st = None
      then (Raise (RuntimeError ''user() can not be used outside of a build context''), st)
      else if truthy grp
      then (Return (), st\<lparr> v_user := Some (name @ '':'' @ the grp) \<rparr>)
      else (Return (), st\<lparr> v_user := Some name \<rparr>))"

definition expose :: "string \<Rightarrow> globals \<Rightarrow> unit outcome \<times> globals" where
  "expose decl st =
     (if container st = None
      then (Raise (RuntimeError ''expose() can not be used outside of a build context''), st)
      else (Return (), st\<lparr> v_expose := v_expose st @ [decl] \<rparr>))"

text \<open>The message of \<open>volume\<close> says \<open>expose()\<close> in the source too.\<close>

definition volume :: "string \<Rightarrow> globals \<Rightarrow> unit outcome \<times> globals" where
  "volume decl st =
     (if container st = None
      then (Raise (RuntimeError ''expose() can not be used outside of a build context''), st)
      else (Return (), st\<lparr> v_volumes := v_volumes st @ [decl] \<rparr>))"


section \<open>\<open>commit\<close>\<close>

text \<open>\<open>s.partition(sep)\<close> for a one-character separator: split at its first occurrence.\<close>

definition str_partition :: "char \<Rightarrow> string \<Rightarrow> string \<times> string \<times> string" where
  "str_partition c s =
     (if c \<in> set s
      then (takeWhile (\<lambda>x. x \<noteq> c) s, [c], tl (dropWhile (\<lambda>x. x \<noteq> c) s))
      else (s, [], []))"

text \<open>
  Lines 244 to 252: the repository and tag that reach the remote call, or the
  \<open>ValueError\<close>. Note \<open>tag = implicit_tag\<close> on the path that does not raise.
\<close>

definition commit_repository ::
  "string option \<Rightarrow> string option \<Rightarrow> exc + (string option \<times> string option)" where
  "commit_repository repository tag =
     (if truthy repository then
        (case str_partition (CHR '':'') (the repository) of
           (repo, _, implicit_tag) \<Rightarrow>
             if implicit_tag \<noteq> [] \<and> repo = [] then Inl (ValueError ''tag without repository'')
             else if truthy tag \<and> implicit_tag \<noteq> []
             then Inl (ValueError ''tag in repository and tag argument'')
             else Inr (Some repo, Some implicit_tag))
      else Inr (None, None))"

text \<open>Lines 254 to 266: the change directives, in the order the source appends them.\<close>

definition commit_changes :: "globals \<Rightarrow> string list" where
  "commit_changes st =
     (case v_cmd st of None \<Rightarrow> [] | Some c \<Rightarrow> [''CMD '' @ json_dumps_list c]) @
     (case v_entrypoint st of None \<Rightarrow> [] | Some e \<Rightarrow> [''ENTRYPOINT '' @ json_dumps_list e]) @
     (case v_user st of None \<Rightarrow> [] | Some u \<Rightarrow> [''USER '' @ u]) @
     (case v_workdir st of None \<Rightarrow> [] | Some w \<Rightarrow> [''WORKDIR '' @ json_dumps_str w]) @
     map (\<lambda>port. ''EXPOSE '' @ port) (v_expose st) @
     map (\<lambda>vol. ''VOLUME '' @ vol) (v_volumes st)"

text \<open>The keyword arguments of the remote call \<open>container.commit(...)\<close>.\<close>

record 'c commit_request =
  c_container :: container
  c_repository :: "string option"
  c_tag :: "string option"
  c_message :: "string option"
  c_author :: "string option"
  c_changes :: "string list"
  c_conf :: "'c option"

text \<open>
  \<open>commit\<close> returns what the remote call returns; the model returns the request that
  reaches the remote call. It assigns no module variable.
\<close>

definition commit ::
  "string option \<Rightarrow> string option \<Rightarrow> string option \<Rightarrow> string option \<Rightarrow> 'c option \<Rightarrow>
   globals \<Rightarrow> 'c commit_request outcome" where
  "commit repository tag author message conf st =
     (case container st of
        None \<Rightarrow> Raise (RuntimeError ''commit() can not be used outside of a build context'')
      | Some c \<Rightarrow>
          (case commit_repository repository tag of
             Inl e \<Rightarrow> Raise e
           | Inr (repo, tag') \<Rightarrow>
               Return \<lparr> c_container = c, c_repository = repo, c_tag = tag',
                 c_message = message, c_author = author,
                 c_changes = commit_changes st, c_conf = conf \<rparr>))"


section \<open>Draining the exec output: \<open>dockertools.ContainerExec\<close>\<close>

text \<open>
  What the class holds, as far as \<open>communicate\<close> reads it: the chunks the output stream
  yields and the \<open>ExitCode\<close> that \<open>exec_inspect\<close> reports once the stream has ended
  (\<open>None\<close> while the daemon has not resolved it).
\<close>

record ContainerExec =
  ce_output :: "bytes list"
  ce_exit_code :: "int option"

text \<open>\<open>data.find(c, offset)\<close>: the index of the first \<open>c\<close> at or after \<open>offset\<close>, or \<open>-1\<close>.\<close>

fun index_of :: "char \<Rightarrow> bytes \<Rightarrow> nat option" where
  "index_of c [] = None"
| "index_of c (x # xs) = (if x = c then Some 0 else map_option Suc (index_of c xs))"

definition find_from :: "bytes \<Rightarrow> char \<Rightarrow> nat \<Rightarrow> int" where
  "find_from data c offset =
     (case index_of c (drop offset data) of None \<Rightarrow> - 1 | Some i \<Rightarrow> int (offset + i))"

text \<open>
  The inner \<open>while offset < len(data)\<close> loop of \<open>communicate\<close> (lines 65 to 74) on one
  chunk; \<open>out\<close> is what has been written to standard output so far.
\<close>

function write_lines :: "bytes \<Rightarrow> bytes \<Rightarrow> nat \<Rightarrow> bytes \<Rightarrow> bytes" where
  "write_lines line_prefix data offset out =
     (if offset < length data then
        (let out1 = out @ line_prefix;
             nl = find_from data LF offset
         in if 0 \<le> nl
            then write_lines line_prefix data (nat nl + 1)
                   (out1 @ take (nat nl + 1 - offset) (drop offset data))
            else write_lines line_prefix data (offset + length (drop offset data))
                   (out1 @ drop offset data))
      else out)"
  by pat_completeness auto
termination
proof (relation "measure (\<lambda>(p, data, offset, out). length data - offset)")
  show "wf (measure (\<lambda>(p, data, offset, out). length data - offset))"
    by simp
next
  fix line_prefix data :: bytes and offset :: nat and out x :: bytes and xa :: int
  assume a: "offset < length data" "xa = find_from data LF offset" "0 \<le> xa"
  from a have "offset \<le> nat xa"
    by (auto simp: find_from_def split: option.splits)
  with a show "((line_prefix, data, nat xa + 1, x @ take (nat xa + 1 - offset) (drop offset data)),
              (line_prefix, data, offset, out))
             \<in> measure (\<lambda>(p, data, offset, out). length data - offset)"
    by auto
next
  fix line_prefix data :: bytes and offset :: nat and out x :: bytes and xa :: int
  assume "offset < length data"
  then show "((line_prefix, data, offset + length (drop offset data), x @ drop offset data),
              (line_prefix, data, offset, out))
             \<in> measure (\<lambda>(p, data, offset, out). length data - offset)"
    by auto
qed

declare write_lines.simps [simp del]

text \<open>The outer \<open>for data in self.output\<close> loop; an empty chunk is skipped.\<close>

fun drain :: "bytes \<Rightarrow> bytes list \<Rightarrow> bytes \<Rightarrow> bytes" where
  "drain line_prefix [] out = out"
| "drain line_prefix (data # rest) out =
     (if data = [] then drain line_prefix rest out
      else drain line_prefix rest (write_lines line_prefix data 0 out))"

text \<open>
  \<open>communicate\<close>: the bytes written to standard output, and the exit status returned or
  the \<open>RuntimeError\<close> raised when \<open>poll()\<close> is \<open>None\<close> after the stream has ended.
\<close>

definition communicate :: "bytes \<Rightarrow> ContainerExec \<Rightarrow> bytes \<times> int outcome" where
  "communicate line_prefix self =
     (drain line_prefix (ce_output self) [],
      case ce_exit_code self of
        None \<Rightarrow> Raise (RuntimeError ''Hm could that really happen?'')
      | Some res \<Rightarrow> Return res)"


section \<open>\<open>error\<close> and \<open>run\<close>\<close>

text \<open>\<open>repr\<close> of an integer: its decimal digits, with a minus sign when negative.\<close>

fun str_nat :: "nat \<Rightarrow> string" where
  "str_nat n =
     (if n < 10 then [''0123456789'' ! n]
      else str_nat (n div 10) @ [''0123456789'' ! (n mod 10)])"

declare str_nat.simps [simp del]

definition repr_int :: "int \<Rightarrow> string" where
  "repr_int i = (if i < 0 then ''-'' @ str_nat (nat (- i)) else str_nat (nat i))"

text \<open>
  \<open>error(message, code=1)\<close>: the text printed to standard error, and the \<open>SystemExit\<close>
  that \<open>sys.exit(code)\<close> raises.
\<close>

definition error :: "string \<Rightarrow> int \<Rightarrow> string \<times> 'a outcome" where
  "error message code = (message @ [LF], Raise (SystemExit code))"

text \<open>What \<open>run\<close> hands to \<open>dockertools.container_exec\<close>.\<close>

record exec_request =
  e_container :: container
  e_cmd :: "string list"
  e_workdir :: "string option"

record run_result =
  rr_outcome :: "unit outcome"
  rr_stdout :: bytes
  rr_stderr :: string

text \<open>
  \<open>run(cmd, **kwargs)\<close>. Of the keyword arguments only \<open>workdir\<close> is modelled:
  \<open>kw_workdir = None\<close> when the caller did not pass it. The daemon is the parameter
  \<open>docker_exec\<close>. \<open>rr_stdout\<close> holds what \<open>communicate\<close> writes; the \<open>RUN\<close> banner and the
  blank lines around it are not modelled. \<open>run\<close> assigns no module variable.
\<close>

definition run ::
  "(exec_request \<Rightarrow> exc + ContainerExec) \<Rightarrow> command \<Rightarrow> string option option \<Rightarrow>
   globals \<Rightarrow> run_result" where
  "run docker_exec c kw_workdir st =
     (case container st of
        None \<Rightarrow> \<lparr> rr_outcome = Raise (RuntimeError ''no current container''),
                  rr_stdout = [], rr_stderr = [] \<rparr>
      | Some ct \<Rightarrow>
          (let wd = (case kw_workdir of
                       Some w \<Rightarrow> w
                     | None \<Rightarrow> if truthy (v_workdir st) then v_workdir st else None)
           in case docker_exec \<lparr> e_container = ct, e_cmd = argv c, e_workdir = wd \<rparr> of
                Inl e \<Rightarrow> \<lparr> rr_outcome = Raise e, rr_stdout = [], rr_stderr = [] \<rparr>
              | Inr result \<Rightarrow>
                  (case communicate ''    '' result of
                     (out, Raise e) \<Rightarrow> \<lparr> rr_outcome = Raise e, rr_stdout = out, rr_stderr = [] \<rparr>
                   | (out, Return res) \<Rightarrow>
                       if res \<noteq> 0
                       then (case error (''ERROR exit code '' @ repr_int res) 1 of
                               (err, r) \<Rightarrow> \<lparr> rr_outcome = r, rr_stdout = out, rr_stderr = err \<rparr>)
                       else \<lparr> rr_outcome = Return (), rr_stdout = out, rr_stderr = [] \<rparr>)))"


section \<open>\<open>buildtime_volume\<close>\<close>

text \<open>\<open>s.startswith(p)\<close> and \<open>x in s\<close> on strings.\<close>

definition startswith :: "string \<Rightarrow> string \<Rightarrow> bool" where
  "startswith s p = (take (length p) s = p)"

fun contains :: "string \<Rightarrow> string \<Rightarrow> bool" where
  "contains [] x = (x = [])"
| "contains (c # cs) x = (startswith (c # cs) x \<or> contains cs x)"

text \<open>
  The members of the external library \<open>nr.path\<close> that \<open>buildtime_volume\<close> reads, and
  \<open>os.name == 'nt'\<close>. They depend on the platform and on the current directory, so they
  are parameters.
\<close>

record path_env =
  os_nt :: bool
  path_sep :: string
  path_curdir :: string
  path_pardir :: string
  path_isabs :: "string \<Rightarrow> bool"
  path_abs :: "string \<Rightarrow> string"

text \<open>
  A POSIX instance for evaluating examples: absolute paths start with \<open>/\<close>, and a relative
  path is made absolute by putting the current directory in front of it.
\<close>

definition posix :: "string \<Rightarrow> path_env" where
  "posix cwd = \<lparr> os_nt = False, path_sep = ''/'', path_curdir = ''.'', path_pardir = ''..'',
     path_isabs = (\<lambda>p. startswith p ''/''),
     path_abs = (\<lambda>p. if startswith p ''/'' then p else cwd @ ''/'' @ p) \<rparr>"

text \<open>
  Lines 144 to 150: the key under which the volume is stored. A relative path is made
  absolute only when it starts with \<open>curdir\<close> or \<open>pardir\<close> or contains a separator.
\<close>

definition host_key :: "path_env \<Rightarrow> string \<Rightarrow> string" where
  "host_key env host_path =
     (let seps = [path_sep env] @ (if os_nt env then [''/''] else [])
      in if \<not> path_isabs env host_path \<and>
            (startswith host_path (path_curdir env) \<or>
             startswith host_path (path_pardir env) \<or>
             list_ex (\<lambda>x. contains host_path x) seps)
         then path_abs env host_path
         else host_path)"

definition buildtime_volume ::
  "path_env \<Rightarrow> string \<Rightarrow> string \<Rightarrow> string \<Rightarrow> globals \<Rightarrow> unit outcome \<times> globals" where
  "buildtime_volume env host_path container_path md st =
     (if container st \<noteq> None
      then (Raise (RuntimeError
              ''buildtime_volume() can not be used from inside a build context''), st)
      else (Return (),
            st\<lparr> buildtime_volumes :=
                  (buildtime_volumes st)(host_key env host_path \<mapsto>
                     \<lparr> bind = container_path, mode = md \<rparr>) \<rparr>))"


section \<open>\<open>copy\<close>\<close>

text \<open>
  \<open>s.replace(old, new)\<close> on bytes: every occurrence of \<open>old\<close> found scanning from the left,
  without overlap, is replaced by \<open>rep\<close>. For an empty \<open>old\<close> Python puts \<open>rep\<close> before every
  byte and at the end.
\<close>

function bytes_replace :: "bytes \<Rightarrow> bytes \<Rightarrow> bytes \<Rightarrow> bytes" where
  "bytes_replace old rep s =
     (if old = [] then rep @ concat (map (\<lambda>c. c # rep) s)
      else if s = [] then []
      else if take (length old) s = old
           then rep @ bytes_replace old rep (drop (length old) s)
           else hd s # bytes_replace old rep (tl s))"
  by pat_completeness auto
termination
  by (relation "measure (\<lambda>(old, rep, s). length s)") auto

declare bytes_replace.simps [simp del]

text \<open>The local file system as \<open>copy\<close> sees it: a regular file has a mode and a content.\<close>

datatype fs_node = File nat bytes | Dir

record tar_entry =
  t_name :: string
  t_mode :: nat
  t_size :: nat
  t_content :: bytes

text \<open>
  What \<open>copy\<close> calls outside this repository: \<open>nr.path.base\<close>, \<open>nr.path.chmod_update\<close>,
  \<open>tarfile.add\<close> (which may raise), \<open>posixpath.normpath(posixpath.join(a, b))\<close> and the
  daemon's \<open>put_archive\<close>.
\<close>

record copy_env =
  fs :: "string \<rightharpoonup> fs_node"
  path_base :: "string \<Rightarrow> string"
  chmod_update :: "nat \<Rightarrow> string \<Rightarrow> nat"
  tar_add :: "string \<Rightarrow> string \<Rightarrow> exc + tar_entry list"
  normjoin :: "string \<Rightarrow> string \<Rightarrow> string"
  put_archive :: "container \<Rightarrow> string \<Rightarrow> tar_entry list \<Rightarrow> bool"

text \<open>\<open>path.isfile(src)\<close>\<close>

definition isfile :: "copy_env \<Rightarrow> string \<Rightarrow> bool" where
  "isfile env src = (case fs env src of Some (File m content) \<Rightarrow> True | _ \<Rightarrow> False)"

text \<open>Lines 283 to 288: the single archive entry built when \<open>crlf_to_lf\<close> is set.\<close>

definition crlf_entry :: "copy_env \<Rightarrow> string \<Rightarrow> string \<Rightarrow> nat \<Rightarrow> bytes \<Rightarrow> tar_entry" where
  "crlf_entry env src chmod st_mode raw =
     (let content = bytes_replace [CR, LF] [LF] raw
      in \<lparr> t_name = path_base env src, t_mode = chmod_update env st_mode chmod,
           t_size = length content, t_content = content \<rparr>)"

text \<open>The \<open>RuntimeError\<close> of line 281.\<close>

definition not_a_file :: "string \<Rightarrow> exc" where
  "not_a_file src =
     RuntimeError (''crlf_to_lf=True, but '' @ [CHR 0x22] @ src @ [CHR 0x22] @ '' is not a file'')"

text \<open>
  The \<open>AttributeError\<close> of \<open>container.put_archive\<close> when \<open>container\<close> is \<open>None\<close>
  (\<open>CHR 0x27\<close> is the single quote).
\<close>

definition none_has_no_put_archive :: exc where
  "none_has_no_put_archive =
     AttributeError ([CHR 0x27] @ ''NoneType'' @ [CHR 0x27] @ '' object has no attribute '' @
                     [CHR 0x27] @ ''put_archive'' @ [CHR 0x27])"

text \<open>
  \<open>copy(src, dst, crlf_to_lf, chmod)\<close>: the outcome and the list of \<open>put_archive\<close> calls
  made (destination and archive). \<open>copy\<close> does not check \<open>container\<close>: with no session
  open, \<open>container.put_archive\<close> is an attribute lookup on \<open>None\<close>. The file check comes
  first, so the inner case on the file system never takes its second branch. What \<open>copy\<close>
  prints is not modelled.
\<close>

definition copy ::
  "copy_env \<Rightarrow> string \<Rightarrow> string \<Rightarrow> bool \<Rightarrow> string \<Rightarrow> globals \<Rightarrow>
   unit outcome \<times> (string \<times> tar_entry list) list" where
  "copy env src dst crlf_to_lf chmod st =
     (let dst' = (if truthy (v_workdir st) then normjoin env (the (v_workdir st)) dst else dst)
      in if crlf_to_lf \<and> \<not> isfile env src then (Raise (not_a_file src), [])
         else
           (case (if crlf_to_lf
                  then (case fs env src of
                          Some (File st_mode raw) \<Rightarrow> Inr [crlf_entry env src chmod st_mode raw]
                        | _ \<Rightarrow> Inl (not_a_file src))
                  else tar_add env src (path_base env src)) of
              Inl e \<Rightarrow> (Raise e, [])
            | Inr archive \<Rightarrow>
                (case container st of
                   None \<Rightarrow> (Raise none_has_no_put_archive, [])
                 | Some ct \<Rightarrow>
                     if put_archive env ct dst' archive
                     then (Return (), [(dst', archive)])
                     else (Raise (RuntimeError ''put_archive() failed''), [(dst', archive)]))))"


section \<open>Sequences of metadata mutations\<close>

datatype mutation =
    Workdir string
  | Cmd command
  | Entrypoint command
  | User string "string option"
  | Expose string
  | Volume string

fun mutate :: "mutation \<Rightarrow> globals \<Rightarrow> unit outcome \<times> globals" where
  "mutate (Workdir p) st = workdir p st"
| "mutate (Cmd c) st = cmd c st"
| "mutate (Entrypoint c) st = entrypoint c st"
| "mutate (User n g) st = user n g st"
| "mutate (Expose d) st = expose d st"
| "mutate (Volume d) st = volume d st"

text \<open>The calls one after the other; a raise ends the sequence, as an exception would.\<close>

fun mutate_all :: "mutation list \<Rightarrow> globals \<Rightarrow> unit outcome \<times> globals" where
  "mutate_all [] st = (Return (), st)"
| "mutate_all (m # ms) st =
     (case mutate m st of
        (Return u, st') \<Rightarrow> mutate_all ms st'
      | (Raise e, st') \<Rightarrow> (Raise e, st'))"


section \<open>What the specification expects\<close>

text \<open>
  The directive list as the specification words it, computed from the sequence of
  mutations alone: for each scalar field the value declared last, if any was declared,
  then the ports and the volumes in declaration order.
\<close>

fun decl_cmd :: "mutation \<Rightarrow> string list option" where
  "decl_cmd (Cmd c) = Some (argv c)"
| "decl_cmd m = None"

fun decl_entrypoint :: "mutation \<Rightarrow> string list option" where
  "decl_entrypoint (Entrypoint c) = Some (argv c)"
| "decl_entrypoint m = None"

fun decl_user :: "mutation \<Rightarrow> string option" where
  "decl_user (User n g) = Some (if truthy g then n @ '':'' @ the g else n)"
| "decl_user m = None"

fun decl_workdir :: "mutation \<Rightarrow> string option" where
  "decl_workdir (Workdir p) = Some p"
| "decl_workdir m = None"

fun decl_expose :: "mutation \<Rightarrow> string option" where
  "decl_expose (Expose d) = Some d"
| "decl_expose m = None"

fun decl_volume :: "mutation \<Rightarrow> string option" where
  "decl_volume (Volume d) = Some d"
| "decl_volume m = None"

definition last_decl :: "(mutation \<Rightarrow> 'a option) \<Rightarrow> mutation list \<Rightarrow> 'a option" where
  "last_decl sel ms = (case List.map_filter sel ms of [] \<Rightarrow> None | x # xs \<Rightarrow> Some (last (x # xs)))"

definition expected_changes :: "mutation list \<Rightarrow> string list" where
  "expected_changes ms =
     (case last_decl decl_cmd ms of None \<Rightarrow> [] | Some c \<Rightarrow> [''CMD '' @ json_dumps_list c]) @
     (case last_decl decl_entrypoint ms of None \<Rightarrow> []
      | Some e \<Rightarrow> [''ENTRYPOINT '' @ json_dumps_list e]) @
     (case last_decl decl_user ms of None \<Rightarrow> [] | Some u \<Rightarrow> [''USER '' @ u]) @
     (case last_decl decl_workdir ms of None \<Rightarrow> [] | Some w \<Rightarrow> [''WORKDIR '' @ json_dumps_str w]) @
     map (\<lambda>d. ''EXPOSE '' @ d) (List.map_filter decl_expose ms) @
     map (\<lambda>d. ''VOLUME '' @ d) (List.map_filter decl_volume ms)"

text \<open>
  The drained output as the specification words it: the stream cut into lines, each line
  ending at a line feed, the unterminated rest (if any) being the last line, and the
  prefix put before every line.
\<close>

fun lines_of :: "bytes \<Rightarrow> bytes \<Rightarrow> bytes list" where
  "lines_of cur [] = (if cur = [] then [] else [cur])"
| "lines_of cur (c # cs) =
     (if c = LF then (cur @ [c]) # lines_of [] cs else lines_of (cur @ [c]) cs)"

definition prefixed :: "bytes \<Rightarrow> bytes \<Rightarrow> bytes" where
  "prefixed line_prefix stream = concat (map (\<lambda>l. line_prefix @ l) (lines_of [] stream))"

text \<open>
  A text file as lines with their endings: each line has a content without line feed and
  ends in LF or in CRLF; an unterminated rest may follow the last line.
\<close>

datatype ending = EndLF | EndCRLF

fun ending_bytes :: "ending \<Rightarrow> bytes" where
  "ending_bytes EndLF = [LF]"
| "ending_bytes EndCRLF = [CR, LF]"

definition render :: "(bytes \<times> ending) list \<Rightarrow> bytes \<Rightarrow> bytes" where
  "render ls rest = concat (map (\<lambda>(l, e). l @ ending_bytes e) ls) @ rest"

text \<open>
  The same file with every ending turned into LF, and the lines meant when a file is said
  to have LF and CRLF line endings: the content of a line has no line feed and does not
  itself end in a carriage return.
\<close>

definition lf_only :: "(bytes \<times> ending) list \<Rightarrow> (bytes \<times> ending) list" where
  "lf_only ls = map (\<lambda>(l, e). (l, EndLF)) ls"

definition plain_line :: "bytes \<times> ending \<Rightarrow> bool" where
  "plain_line le = (case le of (l, e) \<Rightarrow> LF \<notin> set l \<and> (l = [] \<or> last l \<noteq> CR))"



section \<open>Example inputs\<close>

text \<open>A state with a session open, and a daemon that starts every container asked for and
  stops it when asked.\<close>

definition open_session :: globals where
  "open_session = initial\<lparr> container := Some (Container ''dib-temp-1'') \<rparr>"

definition daemon_run :: "run_request \<Rightarrow> exc + container" where
  "daemon_run req = Inr (Container (r_name req))"

definition daemon_kill :: "container \<Rightarrow> exc option" where
  "daemon_kill c = None"

definition example_script :: "mutation list" where
  "example_script =
     [Workdir ''/tmp'', Expose ''80'', Cmd (Shell ''nginx''), User ''www'' (Some ''data''),
      Volume ''/data'', Workdir ''/srv'', Entrypoint (Argv [''/bin/tini'', ''--'']),
      Expose ''443/tcp'', Volume ''/var/log'']"

text \<open>
  Two build contexts one after the other: the first declares a volume, the second
  commits without declaring anything.
\<close>

definition first_session :: "unit outcome \<times> globals" where
  "first_session =
     new daemon_run daemon_kill ''0a1b2c3d'' ''alpine'' [''sleep'', ''999999999''] Map.empty
       (volume ''/data'') initial"

definition second_session :: "unit commit_request outcome \<times> globals" where
  "second_session =
     new daemon_run daemon_kill ''4e5f6a7b'' ''alpine'' [''sleep'', ''999999999''] Map.empty
       (\<lambda>st. (commit None None None None None st, st)) (snd first_session)"

text \<open>An exec whose single output line \<open>abc\<close> arrives in two chunks.\<close>

definition split_line :: ContainerExec where
  "split_line = \<lparr> ce_output = [''ab'', ''c'' @ [LF]], ce_exit_code = Some 0 \<rparr>"

text \<open>Daemons whose exec ends with status 2 and with status 0.\<close>

definition exec_fails :: "exec_request \<Rightarrow> exc + ContainerExec" where
  "exec_fails req = Inr \<lparr> ce_output = [''boom'' @ [LF]], ce_exit_code = Some 2 \<rparr>"

definition exec_succeeds :: "exec_request \<Rightarrow> exc + ContainerExec" where
  "exec_succeeds req = Inr \<lparr> ce_output = [''ok'' @ [LF]], ce_exit_code = Some 0 \<rparr>"

text \<open>
  A local directory with a file of mixed line endings, a directory, and a file with a
  second carriage return before a CRLF; and a daemon that accepts every upload.
\<close>

definition example_fs :: "string \<rightharpoonup> fs_node" where
  "example_fs =
     [''notes.txt'' \<mapsto> File 420 (render [(''one'', EndCRLF), (''two'', EndLF), ([], EndCRLF)] ''end''),
      ''conf.d'' \<mapsto> Dir,
      ''stray.txt'' \<mapsto> File 420 (''a'' @ [CR, CR, LF] @ ''b'' @ [LF])]"

definition example_env :: copy_env where
  "example_env = \<lparr> fs = example_fs, path_base = (\<lambda>p. p), chmod_update = (\<lambda>m s. m),
     tar_add = (\<lambda>src name. Inr []), normjoin = (\<lambda>a b. a @ ''/'' @ b),
     put_archive = (\<lambda>ct dst archive. True) \<rparr>"



section \<open>Nested and missing sessions\<close>

text \<open>
  C8: \<open>new\<close> while a session is active raises the usage error, and the module state it
  leaves is the state it found: the container handle, the declared metadata and the
  buildtime volume mapping are all unchanged.
\<close>

theorem new_nested_raises:
  "container st \<noteq> None \<Longrightarrow>
     new docker_run docker_kill uuid8 img command volumes body st =
       (Raise (RuntimeError ''new() can not be nested''), st)"
  by (simp add: new_def)

text \<open>The nested \<open>new\<close> at a concrete open session.\<close>

theorem new_nested_raises_witness:
  "container open_session \<noteq> None \<and>
   new daemon_run daemon_kill ''0a1b2c3d'' ''alpine'' [''sleep'', ''999999999''] Map.empty
       (workdir ''/app'') open_session =
     (Raise (RuntimeError ''new() can not be nested''), open_session)"
proof -
  have h: "container open_session \<noteq> None"
    by (simp add: open_session_def initial_def)
  show ?thesis
    using h new_nested_raises [OF h] by simp
qed

text \<open>
  C9: with no session open, each of \<open>workdir\<close>, \<open>cmd\<close>, \<open>entrypoint\<close>, \<open>user\<close>, \<open>expose\<close>
  and \<open>volume\<close> raises the usage error and returns the state unchanged, and \<open>run\<close> raises
  the usage error before it contacts the daemon or writes anything (\<open>run\<close> assigns no
  module variable on any path).
\<close>

theorem no_session_raises:
  "container st = None \<Longrightarrow>
     workdir path st =
       (Raise (RuntimeError ''workdir() can not be used outside of a build context''), st) \<and>
     cmd c st =
       (Raise (RuntimeError ''cmd() can not be used outside of a build context''), st) \<and>
     entrypoint c st =
       (Raise (RuntimeError ''entrypoint() can not be used outside of a build context''), st) \<and>
     user name grp st =
       (Raise (RuntimeError ''user() can not be used outside of a build context''), st) \<and>
     expose decl st =
       (Raise (RuntimeError ''expose() can not be used outside of a build context''), st) \<and>
     volume decl st =
       (Raise (RuntimeError ''expose() can not be used outside of a build context''), st) \<and>
     run docker_exec c kw_workdir st =
       \<lparr> rr_outcome = Raise (RuntimeError ''no current container''),
         rr_stdout = [], rr_stderr = [] \<rparr>"
  by (simp add: workdir_def cmd_def entrypoint_def user_def expose_def volume_def run_def)

text \<open>The calls right after import, when no session has been opened yet.\<close>

theorem no_session_raises_witness:
  "container initial = None \<and>
   workdir ''/app'' initial =
     (Raise (RuntimeError ''workdir() can not be used outside of a build context''), initial) \<and>
   expose ''80'' initial =
     (Raise (RuntimeError ''expose() can not be used outside of a build context''), initial) \<and>
   run exec_succeeds (Shell ''ls'') None initial =
     \<lparr> rr_outcome = Raise (RuntimeError ''no current container''),
       rr_stdout = [], rr_stderr = [] \<rparr>"
proof -
  have h: "container initial = None"
    by (simp add: initial_def)
  show ?thesis
    using h no_session_raises [OF h, of "''/app''" "Shell ''ls''" "''root''" None "''80''"
        exec_succeeds None]
    by simp
qed


section \<open>The change directives of \<open>commit\<close>\<close>

lemma last_decl_Nil: "last_decl sel [] = None"
  by (simp add: last_decl_def)

lemma last_decl_Cons:
  "last_decl sel (m # ms) = (case last_decl sel ms of None \<Rightarrow> sel m | Some a \<Rightarrow> Some a)"
  by (cases "sel m"; cases "List.map_filter sel ms") (simp_all add: last_decl_def)

text \<open>One mutation inside a session writes exactly the field it declares.\<close>

lemma mutate_step:
  "container st = Some ct \<Longrightarrow>
   mutate m st =
     (Return (),
      st\<lparr> v_workdir := (case decl_workdir m of None \<Rightarrow> v_workdir st | Some a \<Rightarrow> Some a),
          v_cmd := (case decl_cmd m of None \<Rightarrow> v_cmd st | Some a \<Rightarrow> Some a),
          v_entrypoint := (case decl_entrypoint m of None \<Rightarrow> v_entrypoint st | Some a \<Rightarrow> Some a),
          v_user := (case decl_user m of None \<Rightarrow> v_user st | Some a \<Rightarrow> Some a),
          v_expose := v_expose st @ List.map_filter decl_expose [m],
          v_volumes := v_volumes st @ List.map_filter decl_volume [m] \<rparr>)"
  by (cases m) (simp_all add: workdir_def cmd_def entrypoint_def user_def expose_def volume_def)

lemma last_decl_step:
  "(case last_decl sel ms of
      None \<Rightarrow> (case sel m of None \<Rightarrow> v | Some a \<Rightarrow> Some a)
    | Some a \<Rightarrow> Some a) =
   (case last_decl sel (m # ms) of None \<Rightarrow> v | Some a \<Rightarrow> Some a)"
  by (simp add: last_decl_Cons split: option.splits)

lemma map_filter_step:
  "(xs @ List.map_filter sel [m]) @ List.map_filter sel ms = xs @ List.map_filter sel (m # ms)"
  by (simp split: option.splits)

text \<open>
  The state after a sequence of mutations inside a session, from any starting state:
  no call raises, each scalar field holds the value declared last (or its old value), and
  the two lists have grown by the declarations in order.
\<close>

lemma mutate_all_state:
  "container st = Some ct \<Longrightarrow>
   \<exists>st'. mutate_all ms st = (Return (), st') \<and> container st' = Some ct \<and>
     buildtime_volumes st' = buildtime_volumes st \<and>
     v_cmd st' = (case last_decl decl_cmd ms of None \<Rightarrow> v_cmd st | Some a \<Rightarrow> Some a) \<and>
     v_entrypoint st' =
       (case last_decl decl_entrypoint ms of None \<Rightarrow> v_entrypoint st | Some a \<Rightarrow> Some a) \<and>
     v_user st' = (case last_decl decl_user ms of None \<Rightarrow> v_user st | Some a \<Rightarrow> Some a) \<and>
     v_workdir st' = (case last_decl decl_workdir ms of None \<Rightarrow> v_workdir st | Some a \<Rightarrow> Some a) \<and>
     v_expose st' = v_expose st @ List.map_filter decl_expose ms \<and>
     v_volumes st' = v_volumes st @ List.map_filter decl_volume ms"
proof (induction ms arbitrary: st)
  case Nil
  then show ?case by (simp add: last_decl_Nil)
next
  case (Cons m ms)
  define st1 where "st1 = snd (mutate m st)"
  note one = mutate_step [OF Cons.prems, of m]
  have step: "mutate m st = (Return (), st1)"
    using one by (simp add: st1_def)
  have c1: "container st1 = Some ct"
    using one Cons.prems by (simp add: st1_def)
  have b1: "buildtime_volumes st1 = buildtime_volumes st"
    using one by (simp add: st1_def)
  have g1: "v_cmd st1 = (case decl_cmd m of None \<Rightarrow> v_cmd st | Some a \<Rightarrow> Some a)"
    using one by (simp add: st1_def)
  have g2: "v_entrypoint st1 =
      (case decl_entrypoint m of None \<Rightarrow> v_entrypoint st | Some a \<Rightarrow> Some a)"
    using one by (simp add: st1_def)
  have g3: "v_user st1 = (case decl_user m of None \<Rightarrow> v_user st | Some a \<Rightarrow> Some a)"
    using one by (simp add: st1_def)
  have g4: "v_workdir st1 = (case decl_workdir m of None \<Rightarrow> v_workdir st | Some a \<Rightarrow> Some a)"
    using one by (simp add: st1_def)
  have g5: "v_expose st1 = v_expose st @ List.map_filter decl_expose [m]"
    using one by (simp add: st1_def)
  have g6: "v_volumes st1 = v_volumes st @ List.map_filter decl_volume [m]"
    using one by (simp add: st1_def)
  from Cons.IH [OF c1] obtain st' where
    rest: "mutate_all ms st1 = (Return (), st')" and
    c: "container st' = Some ct" and
    b: "buildtime_volumes st' = buildtime_volumes st1" and
    f1: "v_cmd st' = (case last_decl decl_cmd ms of None \<Rightarrow> v_cmd st1 | Some a \<Rightarrow> Some a)" and
    f2: "v_entrypoint st' =
       (case last_decl decl_entrypoint ms of None \<Rightarrow> v_entrypoint st1 | Some a \<Rightarrow> Some a)" and
    f3: "v_user st' = (case last_decl decl_user ms of None \<Rightarrow> v_user st1 | Some a \<Rightarrow> Some a)" and
    f4: "v_workdir st' =
       (case last_decl decl_workdir ms of None \<Rightarrow> v_workdir st1 | Some a \<Rightarrow> Some a)" and
    f5: "v_expose st' = v_expose st1 @ List.map_filter decl_expose ms" and
    f6: "v_volumes st' = v_volumes st1 @ List.map_filter decl_volume ms"
    by blast
  have all: "mutate_all (m # ms) st = (Return (), st')"
    using step rest by simp
  have h1: "v_cmd st' =
      (case last_decl decl_cmd (m # ms) of None \<Rightarrow> v_cmd st | Some a \<Rightarrow> Some a)"
    unfolding f1 g1 by (rule last_decl_step)
  have h2: "v_entrypoint st' =
      (case last_decl decl_entrypoint (m # ms) of None \<Rightarrow> v_entrypoint st | Some a \<Rightarrow> Some a)"
    unfolding f2 g2 by (rule last_decl_step)
  have h3: "v_user st' =
      (case last_decl decl_user (m # ms) of None \<Rightarrow> v_user st | Some a \<Rightarrow> Some a)"
    unfolding f3 g3 by (rule last_decl_step)
  have h4: "v_workdir st' =
      (case last_decl decl_workdir (m # ms) of None \<Rightarrow> v_workdir st | Some a \<Rightarrow> Some a)"
    unfolding f4 g4 by (rule last_decl_step)
  have h5: "v_expose st' = v_expose st @ List.map_filter decl_expose (m # ms)"
    unfolding f5 g5 by (rule map_filter_step)
  have h6: "v_volumes st' = v_volumes st @ List.map_filter decl_volume (m # ms)"
    unfolding f6 g6 by (rule map_filter_step)
  have b': "buildtime_volumes st' = buildtime_volumes st"
    using b b1 by simp
  show ?case
    using all c b' h1 h2 h3 h4 h5 h6 by blast
qed

text \<open>
  C1: for every sequence of metadata mutations made in an open session whose declared
  state is fresh, no mutation raises and the commit that follows hands the remote call
  the directive list the specification describes: one \<open>CMD\<close>, \<open>ENTRYPOINT\<close>, \<open>USER\<close>,
  \<open>WORKDIR\<close> directive for each scalar field that is non-empty, that is, no longer \<open>None\<close>
  as in the fresh state because a mutation has set it (the value set last; \<open>CMD\<close> and
  \<open>ENTRYPOINT\<close> as JSON arrays, \<open>USER\<close> raw, \<open>WORKDIR\<close> as a JSON string), then one
  \<open>EXPOSE\<close> line per declared port and one \<open>VOLUME\<close> line per declared volume, each in
  declaration order. With no mutations the list is empty.
\<close>

theorem commit_changes_of_mutations:
  assumes "container st = Some ct"
    and "v_cmd st = None" and "v_entrypoint st = None" and "v_user st = None"
    and "v_workdir st = None" and "v_expose st = []" and "v_volumes st = []"
  shows "fst (mutate_all ms st) = Return () \<and>
         commit None None author message conf (snd (mutate_all ms st)) =
           Return \<lparr> c_container = ct, c_repository = None, c_tag = None,
             c_message = message, c_author = author,
             c_changes = expected_changes ms, c_conf = conf \<rparr> \<and>
         expected_changes [] = []"
proof -
  from mutate_all_state [OF assms(1), of ms] obtain st' where
    all: "mutate_all ms st = (Return (), st')" and
    c: "container st' = Some ct" and
    f1: "v_cmd st' = (case last_decl decl_cmd ms of None \<Rightarrow> v_cmd st | Some a \<Rightarrow> Some a)" and
    f2: "v_entrypoint st' =
       (case last_decl decl_entrypoint ms of None \<Rightarrow> v_entrypoint st | Some a \<Rightarrow> Some a)" and
    f3: "v_user st' = (case last_decl decl_user ms of None \<Rightarrow> v_user st | Some a \<Rightarrow> Some a)" and
    f4: "v_workdir st' =
       (case last_decl decl_workdir ms of None \<Rightarrow> v_workdir st | Some a \<Rightarrow> Some a)" and
    f5: "v_expose st' = v_expose st @ List.map_filter decl_expose ms" and
    f6: "v_volumes st' = v_volumes st @ List.map_filter decl_volume ms"
    by blast
  have ch: "commit_changes st' = expected_changes ms"
    using f1 f2 f3 f4 f5 f6 assms
    by (simp add: commit_changes_def expected_changes_def split: option.splits)
  have e: "expected_changes [] = []"
    by (simp add: expected_changes_def last_decl_Nil)
  show ?thesis
    using all c ch e by (simp add: commit_def commit_repository_def)
qed

text \<open>
  Nine mutations, two of them overwriting the working directory, and the commit after
  them (\<open>CHR 0x22\<close> is the double quote).
\<close>

theorem commit_changes_of_mutations_witness:
  "container open_session = Some (Container ''dib-temp-1'') \<and>
   v_cmd open_session = None \<and> v_entrypoint open_session = None \<and>
   v_user open_session = None \<and> v_workdir open_session = None \<and>
   v_expose open_session = [] \<and> v_volumes open_session = [] \<and>
   commit None None None None (None :: unit option) (snd (mutate_all example_script open_session)) =
     Return \<lparr> c_container = Container ''dib-temp-1'', c_repository = None, c_tag = None,
       c_message = None, c_author = None,
       c_changes = [''CMD ['' @ [CHR 0x22] @ ''bash'' @ [CHR 0x22] @ '', '' @ [CHR 0x22] @ ''-c''
                      @ [CHR 0x22] @ '', '' @ [CHR 0x22] @ ''nginx'' @ [CHR 0x22] @ '']'',
                    ''ENTRYPOINT ['' @ [CHR 0x22] @ ''/bin/tini'' @ [CHR 0x22] @ '', ''
                      @ [CHR 0x22] @ ''--'' @ [CHR 0x22] @ '']'',
                    ''USER www:data'',
                    ''WORKDIR '' @ [CHR 0x22] @ ''/srv'' @ [CHR 0x22],
                    ''EXPOSE 80'', ''EXPOSE 443/tcp'', ''VOLUME /data'', ''VOLUME /var/log''],
       c_conf = None \<rparr>"
proof -
  have h: "container open_session = Some (Container ''dib-temp-1'')"
    "v_cmd open_session = None" "v_entrypoint open_session = None"
    "v_user open_session = None" "v_workdir open_session = None"
    "v_expose open_session = []" "v_volumes open_session = []"
    by (simp_all add: open_session_def initial_def)
  have e: "expected_changes example_script =
     [''CMD ['' @ [CHR 0x22] @ ''bash'' @ [CHR 0x22] @ '', '' @ [CHR 0x22] @ ''-c''
                      @ [CHR 0x22] @ '', '' @ [CHR 0x22] @ ''nginx'' @ [CHR 0x22] @ '']'',
                    ''ENTRYPOINT ['' @ [CHR 0x22] @ ''/bin/tini'' @ [CHR 0x22] @ '', ''
                      @ [CHR 0x22] @ ''--'' @ [CHR 0x22] @ '']'',
                    ''USER www:data'',
                    ''WORKDIR '' @ [CHR 0x22] @ ''/srv'' @ [CHR 0x22],
                    ''EXPOSE 80'', ''EXPOSE 443/tcp'', ''VOLUME /data'', ''VOLUME /var/log'']"
    by (simp add: example_script_def expected_changes_def last_decl_def
          json_dumps_list_def json_dumps_str_def json_escape_def)
  show ?thesis
    using h e commit_changes_of_mutations [OF h, of example_script None None "None :: unit option"]
    by simp
qed


section \<open>What leaving the build context resets\<close>

text \<open>
  Whatever the body does, when \<open>new\<close> is entered with no session active and \<open>kill\<close>
  returns or raises an \<open>APIError\<close>, the state \<open>new\<close> leaves has no container and the
  five fields of the \<open>finally\<close> clause are reset.
\<close>

lemma new_finally_resets:
  "(\<And>c. docker_kill c = None \<or> (\<exists>m. docker_kill c = Some (APIError m))) \<Longrightarrow>
   fst (new_finally docker_kill st) = None \<and>
   container (snd (new_finally docker_kill st)) = None \<and>
   v_workdir (snd (new_finally docker_kill st)) = None \<and>
   v_cmd (snd (new_finally docker_kill st)) = None \<and>
   v_entrypoint (snd (new_finally docker_kill st)) = None \<and>
   v_user (snd (new_finally docker_kill st)) = None \<and>
   v_expose (snd (new_finally docker_kill st)) = []"
proof -
  assume k: "\<And>c. docker_kill c = None \<or> (\<exists>m. docker_kill c = Some (APIError m))"
  have "(case container st of
           None \<Rightarrow> None
         | Some c \<Rightarrow> (case docker_kill c of Some (APIError m) \<Rightarrow> None | r \<Rightarrow> r)) = None"
  proof (cases "container st")
    case None
    then show ?thesis by simp
  next
    case (Some c)
    then show ?thesis using k [of c] by auto
  qed
  then show ?thesis
    by (simp add: new_finally_def)
qed

lemma new_exit_resets:
  assumes "container st = None"
    and "\<And>c. docker_kill c = None \<or> (\<exists>m. docker_kill c = Some (APIError m))"
  shows "container (snd (new docker_run docker_kill uuid8 img command volumes body st)) = None \<and>
   v_workdir (snd (new docker_run docker_kill uuid8 img command volumes body st)) = None \<and>
   v_cmd (snd (new docker_run docker_kill uuid8 img command volumes body st)) = None \<and>
   v_entrypoint (snd (new docker_run docker_kill uuid8 img command volumes body st)) = None \<and>
   v_user (snd (new docker_run docker_kill uuid8 img command volumes body st)) = None \<and>
   v_expose (snd (new docker_run docker_kill uuid8 img command volumes body st)) = []"
proof -
  obtain r st' where inner:
    "(case docker_run \<lparr> r_image = img, r_command = command,
             r_name = ''dib-temp-'' @ uuid8, r_auto_remove = True, r_detach = True,
             r_volumes = merge_dictionary (buildtime_volumes st) volumes \<rparr> of
        Inl e \<Rightarrow> (Raise e, st)
      | Inr c \<Rightarrow> body (st\<lparr> container := Some c \<rparr>)) = (r, st')"
    by (cases "case docker_run \<lparr> r_image = img, r_command = command,
             r_name = ''dib-temp-'' @ uuid8, r_auto_remove = True, r_detach = True,
             r_volumes = merge_dictionary (buildtime_volumes st) volumes \<rparr> of
        Inl e \<Rightarrow> (Raise e :: 'a outcome, st)
      | Inr c \<Rightarrow> body (st\<lparr> container := Some c \<rparr>)") auto
  obtain st'' where fin: "new_finally docker_kill st' = (None, st'')"
    using new_finally_resets [where docker_kill = docker_kill and st = st', OF assms(2)]
    by (cases "new_finally docker_kill st'") auto
  have "snd (new docker_run docker_kill uuid8 img command volumes body st) =
      snd (new_finally docker_kill st')"
    using assms(1) inner fin by (simp add: new_def)
  then show ?thesis
    using new_finally_resets [where docker_kill = docker_kill and st = st', OF assms(2)] by simp
qed

lemma first_session_state:
  "first_session = (Return (), initial\<lparr> v_volumes := [''/data''] \<rparr>)"
  by (simp add: first_session_def new_def daemon_run_def daemon_kill_def initial_def
      merge_dictionary_def volume_def new_finally_def)

text \<open>
  C3: the claim says that leaving the build context resets every declared field, the
  declared volumes included, so that a commit in a new session with no mutations has an
  empty directive list. The code at the claim's failing input: a first session declares
  the volume \<open>/data\<close> and ends normally; a second session commits without any mutation,
  and its directive list is \<open>VOLUME /data\<close>, not empty.
\<close>

theorem volumes_survive_close:
  "fst first_session = Return () \<and>
   v_volumes (snd first_session) = [''/data''] \<and>
   fst second_session =
     Return \<lparr> c_container = Container ''dib-temp-4e5f6a7b'', c_repository = None, c_tag = None,
       c_message = None, c_author = None, c_changes = [''VOLUME /data''], c_conf = None \<rparr>"
  by (simp add: second_session_def first_session_state new_def new_finally_def daemon_run_def
      daemon_kill_def initial_def merge_dictionary_def commit_def commit_repository_def
      commit_changes_def)


section \<open>Repository and tag in \<open>commit\<close>\<close>

lemma str_partition_first_colon:
  "c \<notin> set name \<Longrightarrow> str_partition c (name @ c # tag) = (name, [c], tag)"
  by (induction name) (auto simp: str_partition_def)

lemma implicit_tag_nonempty:
  "tag \<noteq> [] \<Longrightarrow> tl (dropWhile (\<lambda>x. x \<noteq> c) (name @ c # tag)) \<noteq> []"
  by (induction name) auto

text \<open>
  Where the code does what is asked of it, in an open session: a reference \<open>name:tag\<close>
  whose only colon is the one before the tag (a non-empty name without colon, a tag
  without colon or slash) reaches the remote call as repository \<open>name\<close> and tag \<open>tag\<close>
  when no tag argument is given; a non-empty embedded tag together with a non-empty tag
  argument raises a \<open>ValueError\<close>; and \<open>:tag\<close> with a non-empty tag raises the
  \<open>ValueError\<close> for a tag without repository.
\<close>

lemma commit_plain_reference:
  assumes "container st = Some ct"
  shows "(name \<noteq> [] \<and> CHR '':'' \<notin> set name \<and> CHR '':'' \<notin> set tag \<and> CHR ''/'' \<notin> set tag \<longrightarrow>
            commit (Some (name @ '':'' @ tag)) None author message conf st =
              Return \<lparr> c_container = ct, c_repository = Some name, c_tag = Some tag,
                c_message = message, c_author = author,
                c_changes = commit_changes st, c_conf = conf \<rparr>) \<and>
         (tag \<noteq> [] \<and> explicit \<noteq> [] \<longrightarrow>
            (\<exists>msg. commit (Some (name @ '':'' @ tag)) (Some explicit) author message conf st =
               Raise (ValueError msg))) \<and>
         (tag \<noteq> [] \<longrightarrow>
            commit (Some ('':'' @ tag)) explicit_opt author message conf st =
              Raise (ValueError ''tag without repository''))"
proof (intro conjI impI)
  assume "name \<noteq> [] \<and> CHR '':'' \<notin> set name \<and> CHR '':'' \<notin> set tag \<and> CHR ''/'' \<notin> set tag"
  then show "commit (Some (name @ '':'' @ tag)) None author message conf st =
              Return \<lparr> c_container = ct, c_repository = Some name, c_tag = Some tag,
                c_message = message, c_author = author,
                c_changes = commit_changes st, c_conf = conf \<rparr>"
    using assms by (simp add: commit_def commit_repository_def str_partition_first_colon)
next
  assume "tag \<noteq> [] \<and> explicit \<noteq> []"
  then show "\<exists>msg. commit (Some (name @ '':'' @ tag)) (Some explicit) author message conf st =
               Raise (ValueError msg)"
    using assms implicit_tag_nonempty [of tag "CHR '':''" name]
    by (simp add: commit_def commit_repository_def str_partition_def)
next
  assume "tag \<noteq> []"
  then show "commit (Some ('':'' @ tag)) explicit_opt author message conf st =
              Raise (ValueError ''tag without repository'')"
    using assms str_partition_first_colon [of "CHR '':''" "[]" tag]
    by (simp add: commit_def commit_repository_def)
qed

text \<open>
  C4: the claim says that for every name and tag, \<open>commit\<close> called with \<open>name:tag\<close> and
  no tag argument passes repository \<open>name\<close> and tag \<open>tag\<close> to the remote call. The code
  at the claim's failing input, the name \<open>localhost:5000/app\<close> of a registry with a port
  and the tag \<open>v1\<close>: the string is cut at its first colon, and the remote call gets
  repository \<open>localhost\<close> and tag \<open>5000/app:v1\<close>. The same repository cannot be named
  in another way either: without a tag it is cut into \<open>localhost\<close> and \<open>5000/app\<close>, and
  with the tag given as an argument \<open>commit\<close> raises.
\<close>

theorem commit_splits_at_first_colon:
  "commit (Some (''localhost:5000/app'' @ '':'' @ ''v1'')) None None None (None :: unit option)
       open_session =
     Return \<lparr> c_container = Container ''dib-temp-1'', c_repository = Some ''localhost'',
       c_tag = Some ''5000/app:v1'', c_message = None, c_author = None,
       c_changes = [], c_conf = None \<rparr> \<and>
   commit (Some ''localhost:5000/app'') None None None (None :: unit option) open_session =
     Return \<lparr> c_container = Container ''dib-temp-1'', c_repository = Some ''localhost'',
       c_tag = Some ''5000/app'', c_message = None, c_author = None,
       c_changes = [], c_conf = None \<rparr> \<and>
   commit (Some ''localhost:5000/app'') (Some ''v1'') None None (None :: unit option)
       open_session =
     Raise (ValueError ''tag in repository and tag argument'')"
  by (simp add: commit_def commit_repository_def str_partition_def open_session_def initial_def
      commit_changes_def)

text \<open>
  C6: for every repository string without a colon and every non-empty explicit tag,
  \<open>commit\<close> in an open session raises nothing and the tag that reaches the remote call is
  not the caller's: it is the empty tag taken from the repository string (or \<open>None\<close>,
  together with the repository, when the repository string is empty).
\<close>

theorem commit_discards_explicit_tag:
  assumes "container st = Some ct" and "CHR '':'' \<notin> set repository" and "tag \<noteq> []"
  shows "commit (Some repository) (Some tag) author message conf st =
           Return \<lparr> c_container = ct,
             c_repository = (if repository = [] then None else Some repository),
             c_tag = (if repository = [] then None else Some []),
             c_message = message, c_author = author,
             c_changes = commit_changes st, c_conf = conf \<rparr> \<and>
         (if repository = [] then None else Some []) \<noteq> Some tag"
  using assms
  by (auto simp: commit_def commit_repository_def str_partition_def)

text \<open>\<open>commit('myapp', tag='2.0')\<close>: the remote call gets the tag \<open>''\<close>.\<close>

theorem commit_discards_explicit_tag_witness:
  "container open_session = Some (Container ''dib-temp-1'') \<and>
   CHR '':'' \<notin> set ''myapp'' \<and> ''2.0'' \<noteq> [] \<and>
   commit (Some ''myapp'') (Some ''2.0'') None None (None :: unit option) open_session =
     Return \<lparr> c_container = Container ''dib-temp-1'', c_repository = Some ''myapp'',
       c_tag = Some [], c_message = None, c_author = None, c_changes = [], c_conf = None \<rparr>"
proof -
  have h: "container open_session = Some (Container ''dib-temp-1'')"
    by (simp add: open_session_def initial_def)
  have n: "CHR '':'' \<notin> set ''myapp''" "''2.0'' \<noteq> []"
    by simp_all
  have ch: "commit_changes open_session = []"
    by (simp add: commit_changes_def open_session_def initial_def)
  show ?thesis
    using h ch commit_discards_explicit_tag [OF h n, of None None "None :: unit option"]
    by simp
qed


section \<open>The exit status of \<open>run\<close>\<close>

text \<open>
  C5: when the session is open and the remote exec ends with a status, a non-zero status
  makes \<open>run\<close> raise \<open>SystemExit\<close> with code 1 after printing
  \<open>ERROR exit code <status>\<close> to standard error, and a zero status makes \<open>run\<close> return
  normally with nothing printed to standard error.
\<close>

theorem run_exit_status:
  assumes "container st = Some ct"
    and "docker_exec \<lparr> e_container = ct, e_cmd = argv c,
           e_workdir = (case kw_workdir of Some w \<Rightarrow> w
                        | None \<Rightarrow> if truthy (v_workdir st) then v_workdir st else None) \<rparr>
         = Inr result"
    and "ce_exit_code result = Some status"
  shows "(status \<noteq> 0 \<longrightarrow>
            rr_outcome (run docker_exec c kw_workdir st) = Raise (SystemExit 1) \<and>
            rr_stderr (run docker_exec c kw_workdir st) =
              ''ERROR exit code '' @ repr_int status @ [LF]) \<and>
         (status = 0 \<longrightarrow>
            rr_outcome (run docker_exec c kw_workdir st) = Return () \<and>
            rr_stderr (run docker_exec c kw_workdir st) = [])"
  using assms by (simp add: run_def communicate_def error_def)

text \<open>A command that ends with status 2, and one that ends with status 0.\<close>

theorem run_exit_status_witness:
  "container open_session = Some (Container ''dib-temp-1'') \<and>
   rr_outcome (run exec_fails (Shell ''exit 2'') None open_session) = Raise (SystemExit 1) \<and>
   rr_stderr (run exec_fails (Shell ''exit 2'') None open_session) =
     ''ERROR exit code 2'' @ [LF] \<and>
   rr_outcome (run exec_succeeds (Shell ''true'') None open_session) = Return () \<and>
   rr_stderr (run exec_succeeds (Shell ''true'') None open_session) = []"
proof -
  have h: "container open_session = Some (Container ''dib-temp-1'')"
    by (simp add: open_session_def initial_def)
  have d2: "exec_fails \<lparr> e_container = Container ''dib-temp-1'', e_cmd = argv (Shell ''exit 2''),
             e_workdir = (case (None :: string option option) of Some w \<Rightarrow> w
                          | None \<Rightarrow> if truthy (v_workdir open_session)
                                    then v_workdir open_session else None) \<rparr>
           = Inr \<lparr> ce_output = [''boom'' @ [LF]], ce_exit_code = Some 2 \<rparr>"
    by (simp add: exec_fails_def)
  have d0: "exec_succeeds \<lparr> e_container = Container ''dib-temp-1'', e_cmd = argv (Shell ''true''),
             e_workdir = (case (None :: string option option) of Some w \<Rightarrow> w
                          | None \<Rightarrow> if truthy (v_workdir open_session)
                                    then v_workdir open_session else None) \<rparr>
           = Inr \<lparr> ce_output = [''ok'' @ [LF]], ce_exit_code = Some 0 \<rparr>"
    by (simp add: exec_succeeds_def)
  have r: "repr_int 2 = ''2''"
    by (simp add: repr_int_def str_nat.simps)
  show ?thesis
    using h d2 d0 r
      run_exit_status [where st = open_session and ct = "Container ''dib-temp-1''"
        and docker_exec = exec_fails and c = "Shell ''exit 2''" and kw_workdir = None
        and result = "\<lparr> ce_output = [''boom'' @ [LF]], ce_exit_code = Some 2 \<rparr>"
        and status = 2]
      run_exit_status [where st = open_session and ct = "Container ''dib-temp-1''"
        and docker_exec = exec_succeeds and c = "Shell ''true''" and kw_workdir = None
        and result = "\<lparr> ce_output = [''ok'' @ [LF]], ce_exit_code = Some 0 \<rparr>"
        and status = 0]
    by simp
qed


section \<open>The key of a buildtime volume\<close>

text \<open>
  C7, as amended: before a session is open, \<open>buildtime_volume\<close> stores the bind
  descriptor with the given container path and access mode under a key that is (1) the
  host path itself when it is absolute, (2) the host path made absolute when it is
  relative and starts with \<open>curdir\<close> or \<open>pardir\<close> or contains a path separator, and
  (3) the host path itself, unchanged, when it neither starts with \<open>curdir\<close> or
  \<open>pardir\<close> nor contains a separator (a bare name).
\<close>

theorem buildtime_volume_key:
  assumes "container st = None"
  shows "buildtime_volume env host_path container_path md st =
           (Return (),
            st\<lparr> buildtime_volumes :=
                  (buildtime_volumes st)(host_key env host_path \<mapsto>
                     \<lparr> bind = container_path, mode = md \<rparr>) \<rparr>) \<and>
         (path_isabs env host_path \<longrightarrow> host_key env host_path = host_path) \<and>
         (\<not> path_isabs env host_path \<and>
            (startswith host_path (path_curdir env) \<or> startswith host_path (path_pardir env) \<or>
             contains host_path (path_sep env) \<or> (os_nt env \<and> contains host_path ''/''))
          \<longrightarrow> host_key env host_path = path_abs env host_path) \<and>
         (\<not> startswith host_path (path_curdir env) \<and> \<not> startswith host_path (path_pardir env) \<and>
          \<not> contains host_path (path_sep env) \<and> \<not> (os_nt env \<and> contains host_path ''/'')
          \<longrightarrow> host_key env host_path = host_path)"
  using assms by (auto simp: buildtime_volume_def host_key_def)

text \<open>An absolute path, a relative path starting with a dot, and a bare name.\<close>

theorem buildtime_volume_key_witness:
  "container initial = None \<and>
   path_isabs (posix ''/work'') ''/srv/cache'' \<and>
   host_key (posix ''/work'') ''/srv/cache'' = ''/srv/cache'' \<and>
   \<not> path_isabs (posix ''/work'') ''./cache'' \<and>
   startswith ''./cache'' (path_curdir (posix ''/work'')) \<and>
   host_key (posix ''/work'') ''./cache'' = ''/work/./cache'' \<and>
   \<not> startswith ''cache'' (path_curdir (posix ''/work'')) \<and>
   \<not> contains ''cache'' (path_sep (posix ''/work'')) \<and>
   host_key (posix ''/work'') ''cache'' = ''cache'' \<and>
   buildtime_volume (posix ''/work'') ''./cache'' ''/var/cache'' ''ro'' initial =
     (Return (),
      initial\<lparr> buildtime_volumes :=
        (buildtime_volumes initial)(''/work/./cache'' \<mapsto> \<lparr> bind = ''/var/cache'', mode = ''ro'' \<rparr>) \<rparr>)"
proof -
  have h: "container initial = None"
    by (simp add: initial_def)
  have p: "path_isabs (posix ''/work'') ''/srv/cache''"
    "\<not> path_isabs (posix ''/work'') ''./cache''"
    "startswith ''./cache'' (path_curdir (posix ''/work''))"
    "\<not> startswith ''cache'' (path_curdir (posix ''/work''))"
    "\<not> startswith ''cache'' (path_pardir (posix ''/work''))"
    "\<not> contains ''cache'' (path_sep (posix ''/work''))"
    "\<not> os_nt (posix ''/work'')"
    "path_abs (posix ''/work'') ''./cache'' = ''/work/./cache''"
    by (simp_all add: posix_def startswith_def)
  show ?thesis
    using h p
      buildtime_volume_key [OF h, of "posix ''/work''" "''/srv/cache''" "''/var/cache''" "''ro''"]
      buildtime_volume_key [OF h, of "posix ''/work''" "''./cache''" "''/var/cache''" "''ro''"]
      buildtime_volume_key [OF h, of "posix ''/work''" "''cache''" "''/var/cache''" "''ro''"]
    by simp
qed

text \<open>
  The claim as stated fails for the relative host path \<open>cache\<close>: it is not absolute, its
  absolute form is \<open>/work/cache\<close>, and the mapping is keyed by \<open>cache\<close> itself, with no
  entry under \<open>/work/cache\<close>.
\<close>

theorem buildtime_volume_relative_counterexample:
  "\<not> path_isabs (posix ''/work'') ''cache'' \<and>
   path_abs (posix ''/work'') ''cache'' = ''/work/cache'' \<and>
   buildtime_volumes (snd (buildtime_volume (posix ''/work'') ''cache'' ''/var/cache'' ''rw''
       initial)) ''cache'' = Some \<lparr> bind = ''/var/cache'', mode = ''rw'' \<rparr> \<and>
   buildtime_volumes (snd (buildtime_volume (posix ''/work'') ''cache'' ''/var/cache'' ''rw''
       initial)) ''/work/cache'' = None"
  by (simp add: buildtime_volume_def host_key_def posix_def startswith_def initial_def)


section \<open>Draining the output stream\<close>

text \<open>
  What the loops of \<open>communicate\<close> write: each chunk on its own is cut into lines and
  prefixed, and the results are concatenated. When every chunk but the last is empty or
  ends at a line feed, this is the stream with the prefix before every line.
\<close>

lemma lines_of_found:
  "index_of LF s = Some i \<Longrightarrow>
     lines_of cur s = (cur @ take (Suc i) s) # lines_of [] (drop (Suc i) s)"
  by (induction s arbitrary: cur i) (auto split: if_splits)

lemma lines_of_not_found:
  "index_of LF s = None \<Longrightarrow> lines_of cur s = (if cur @ s = [] then [] else [cur @ s])"
  by (induction s arbitrary: cur) (auto split: if_splits)

lemma write_lines_prefixed:
  "write_lines p data offset out = out @ prefixed p (drop offset data)"
proof (induction p data offset out rule: write_lines.induct)
  case (1 p data offset out)
  show ?case
  proof (cases "offset < length data")
    case False
    then show ?thesis
      by (simp add: write_lines.simps prefixed_def)
  next
    case True
    show ?thesis
    proof (cases "index_of LF (drop offset data)")
      case None
      then have nl: "find_from data LF offset = - 1"
        by (simp add: find_from_def)
      have "write_lines p data offset out =
          write_lines p data (offset + length (drop offset data)) ((out @ p) @ drop offset data)"
        using True nl by (subst write_lines.simps) simp
      also have "\<dots> = (out @ p) @ drop offset data"
        using True by (subst write_lines.simps) simp
      also have "\<dots> = out @ prefixed p (drop offset data)"
        using True None by (simp add: prefixed_def lines_of_not_found)
      finally show ?thesis .
    next
      case (Some i)
      then have pos: "0 \<le> find_from data LF offset"
        and n: "nat (find_from data LF offset) = offset + i"
        by (simp_all add: find_from_def)
      have step: "write_lines p data offset out =
          write_lines p data (Suc (offset + i))
            ((out @ p) @ take (Suc i) (drop offset data))"
        using True pos n by (subst write_lines.simps) (simp add: Let_def)
      have ih: "write_lines p data (Suc (offset + i)) ((out @ p) @ take (Suc i) (drop offset data)) =
          ((out @ p) @ take (Suc i) (drop offset data)) @ prefixed p (drop (Suc (offset + i)) data)"
        using "1.IH"(1) [OF True refl refl pos] n by simp
      have "drop (Suc (offset + i)) data = drop (Suc i) (drop offset data)"
        by (simp add: add.commute)
      then have "prefixed p (drop offset data) =
          p @ take (Suc i) (drop offset data) @ prefixed p (drop (Suc (offset + i)) data)"
        using Some by (simp add: prefixed_def lines_of_found)
      then show ?thesis
        using step ih by simp
    qed
  qed
qed


lemma prefixed_Nil: "prefixed p [] = []"
  by (simp add: prefixed_def)

lemma drain_chunks: "drain p chunks out = out @ concat (map (prefixed p) chunks)"
  by (induction chunks arbitrary: out) (simp_all add: write_lines_prefixed prefixed_Nil)

lemma lines_of_append:
  "a \<noteq> [] \<Longrightarrow> last a = LF \<Longrightarrow> lines_of cur (a @ b) = lines_of cur a @ lines_of [] b"
proof (induction a arbitrary: cur)
  case Nil
  then show ?case by simp
next
  case (Cons x a)
  show ?case
  proof (cases "a = []")
    case True
    then show ?thesis using Cons.prems by simp
  next
    case False
    then show ?thesis using Cons by simp
  qed
qed

lemma prefixed_append:
  "a = [] \<or> last a = LF \<Longrightarrow> prefixed p (a @ b) = prefixed p a @ prefixed p b"
  by (cases "a = []") (simp_all add: prefixed_def lines_of_append)

lemma prefixed_chunks:
  "list_all (\<lambda>d. d = [] \<or> last d = LF) (butlast chunks) \<Longrightarrow>
     concat (map (prefixed p) chunks) = prefixed p (concat chunks)"
proof (induction chunks)
  case Nil
  show ?case by (simp add: prefixed_Nil)
next
  case (Cons d chunks)
  show ?case
  proof (cases "chunks = []")
    case True
    then show ?thesis by simp
  next
    case False
    then have "d = [] \<or> last d = LF" and "list_all (\<lambda>d. d = [] \<or> last d = LF) (butlast chunks)"
      using Cons.prems by simp_all
    then show ?thesis
      using Cons.IH by (simp add: prefixed_append)
  qed
qed

lemma communicate_aligned:
  "list_all (\<lambda>d. d = [] \<or> last d = LF) (butlast (ce_output self)) \<Longrightarrow>
     fst (communicate p self) = prefixed p (concat (ce_output self))"
  by (simp add: communicate_def drain_chunks prefixed_chunks)

text \<open>
  C2: the claim says that \<open>communicate\<close> writes the stream with the prefix once before
  every line however the stream is cut into chunks. The code at the claim's failing
  input: the line \<open>abc\<close> arrives as the chunks \<open>ab\<close> and \<open>c\<close> plus line feed, and the
  prefix is written before each chunk, so it appears a second time in the middle of the
  line, where the specification's output has it once.
\<close>

theorem communicate_split_line:
  "communicate ''> '' split_line = (''> ab> c'' @ [LF], Return 0) \<and>
   prefixed ''> '' (concat (ce_output split_line)) = ''> abc'' @ [LF]"
  by (simp add: communicate_def split_line_def write_lines.simps find_from_def LF_def prefixed_def)


section \<open>Line endings in \<open>copy\<close>\<close>

text \<open>The replacement of CRLF by LF, equation by equation.\<close>

lemma CR_neq_LF: "CR \<noteq> LF"
  by (simp add: CR_def LF_def)

lemma crlf_Nil: "bytes_replace [CR, LF] [LF] [] = []"
  by (simp add: bytes_replace.simps)

lemma crlf_match: "bytes_replace [CR, LF] [LF] (CR # LF # s) = LF # bytes_replace [CR, LF] [LF] s"
  by (subst bytes_replace.simps) simp

lemma crlf_skip:
  "a \<noteq> CR \<or> s = [] \<or> hd s \<noteq> LF \<Longrightarrow>
     bytes_replace [CR, LF] [LF] (a # s) = a # bytes_replace [CR, LF] [LF] s"
  by (subst bytes_replace.simps) (cases s; auto)

lemma crlf_rest: "LF \<notin> set rest \<Longrightarrow> bytes_replace [CR, LF] [LF] rest = rest"
proof (induction rest)
  case Nil
  show ?case by (rule crlf_Nil)
next
  case (Cons a rest)
  then have "a \<noteq> CR \<or> rest = [] \<or> hd rest \<noteq> LF"
    by (cases rest) auto
  then show ?case
    using Cons by (simp add: crlf_skip)
qed

lemma crlf_line:
  "LF \<notin> set l \<Longrightarrow> l = [] \<or> last l \<noteq> CR \<Longrightarrow>
     bytes_replace [CR, LF] [LF] (l @ ending_bytes e @ tail) =
       l @ [LF] @ bytes_replace [CR, LF] [LF] tail"
proof (induction l)
  case Nil
  show ?case
    by (cases e) (simp_all add: crlf_match crlf_skip CR_neq_LF [symmetric])
next
  case (Cons a l)
  have "a \<noteq> CR \<or> l @ ending_bytes e @ tail = [] \<or> hd (l @ ending_bytes e @ tail) \<noteq> LF"
    using Cons.prems by (cases l; cases e) (auto simp: CR_neq_LF)
  then have "bytes_replace [CR, LF] [LF] (a # l @ ending_bytes e @ tail) =
      a # bytes_replace [CR, LF] [LF] (l @ ending_bytes e @ tail)"
    by (rule crlf_skip)
  moreover have "bytes_replace [CR, LF] [LF] (l @ ending_bytes e @ tail) =
      l @ [LF] @ bytes_replace [CR, LF] [LF] tail"
    using Cons by (cases l) auto
  ultimately show ?case by simp
qed

lemma crlf_render:
  "list_all plain_line ls \<Longrightarrow> LF \<notin> set rest \<Longrightarrow>
     bytes_replace [CR, LF] [LF] (render ls rest) = render (lf_only ls) rest"
proof (induction ls)
  case Nil
  then show ?case by (simp add: render_def lf_only_def crlf_rest)
next
  case (Cons le ls)
  obtain l e where le: "le = (l, e)" by (cases le)
  have pl: "LF \<notin> set l" "l = [] \<or> last l \<noteq> CR"
    using Cons.prems le by (auto simp: plain_line_def)
  have "render (le # ls) rest = l @ ending_bytes e @ render ls rest"
    by (simp add: render_def le)
  then have "bytes_replace [CR, LF] [LF] (render (le # ls) rest) =
      l @ [LF] @ bytes_replace [CR, LF] [LF] (render ls rest)"
    using crlf_line [OF pl] by simp
  also have "\<dots> = l @ [LF] @ render (lf_only ls) rest"
    using Cons by simp
  also have "\<dots> = render (lf_only (le # ls)) rest"
    by (simp add: render_def lf_only_def le)
  finally show ?case .
qed

lemma no_crlf_rest: "LF \<notin> set rest \<Longrightarrow> \<not> contains rest [CR, LF]"
proof (induction rest)
  case Nil
  show ?case by simp
next
  case (Cons a rest)
  have "\<not> startswith (a # rest) [CR, LF]"
    using Cons.prems by (cases rest) (auto simp: startswith_def)
  then show ?case
    using Cons by simp
qed

lemma no_crlf_line:
  "LF \<notin> set l \<Longrightarrow> l = [] \<or> last l \<noteq> CR \<Longrightarrow>
     contains (l @ LF # tail) [CR, LF] = contains tail [CR, LF]"
proof (induction l)
  case Nil
  show ?case by (simp add: startswith_def CR_neq_LF [symmetric])
next
  case (Cons a l)
  have "\<not> startswith ((a # l) @ LF # tail) [CR, LF]"
    using Cons.prems by (cases l) (auto simp: startswith_def)
  moreover have "contains (l @ LF # tail) [CR, LF] = contains tail [CR, LF]"
    using Cons by (cases l) auto
  ultimately show ?case by simp
qed

lemma no_crlf_render:
  "list_all plain_line ls \<Longrightarrow> LF \<notin> set rest \<Longrightarrow> \<not> contains (render (lf_only ls) rest) [CR, LF]"
proof (induction ls)
  case Nil
  then show ?case by (simp add: render_def lf_only_def no_crlf_rest)
next
  case (Cons le ls)
  obtain l e where le: "le = (l, e)" by (cases le)
  have pl: "LF \<notin> set l" "l = [] \<or> last l \<noteq> CR"
    using Cons.prems le by (auto simp: plain_line_def)
  have "render (lf_only (le # ls)) rest = l @ LF # render (lf_only ls) rest"
    by (simp add: render_def lf_only_def le)
  then show ?case
    using no_crlf_line [OF pl] Cons by simp
qed

text \<open>
  C10, as amended: in an open session, for every regular file made of lines that end in
  LF or CRLF (and an unterminated rest) where no line's content ends in a carriage
  return, that is, a content with no CR directly before a CRLF, \<open>copy\<close> with
  normalization requested hands \<open>put_archive\<close> one archive with one entry whose content
  is the original with every line ending turned into LF and every other byte unchanged,
  and that content has no CR LF pair. When the source is not a regular file, \<open>copy\<close>
  with normalization requested raises the \<open>RuntimeError\<close> and makes no \<open>put_archive\<close>
  call.
\<close>

theorem copy_crlf_to_lf:
  assumes "container st = Some ct"
  shows "(fs env src = Some (File st_mode (render ls rest)) \<and> list_all plain_line ls \<and>
          LF \<notin> set rest \<longrightarrow>
            snd (copy env src dst True chmod st) =
              [(if truthy (v_workdir st) then normjoin env (the (v_workdir st)) dst else dst,
                [\<lparr> t_name = path_base env src, t_mode = chmod_update env st_mode chmod,
                   t_size = length (render (lf_only ls) rest),
                   t_content = render (lf_only ls) rest \<rparr>])] \<and>
            \<not> contains (render (lf_only ls) rest) [CR, LF]) \<and>
         (\<not> isfile env src \<longrightarrow> copy env src dst True chmod st = (Raise (not_a_file src), []))"
proof (intro conjI impI)
  assume a: "fs env src = Some (File st_mode (render ls rest)) \<and> list_all plain_line ls \<and>
          LF \<notin> set rest"
  then have f: "isfile env src"
    by (simp add: isfile_def)
  have r: "bytes_replace [CR, LF] [LF] (render ls rest) = render (lf_only ls) rest"
    using a by (simp add: crlf_render)
  show "snd (copy env src dst True chmod st) =
              [(if truthy (v_workdir st) then normjoin env (the (v_workdir st)) dst else dst,
                [\<lparr> t_name = path_base env src, t_mode = chmod_update env st_mode chmod,
                   t_size = length (render (lf_only ls) rest),
                   t_content = render (lf_only ls) rest \<rparr>])]"
    using a f r assms by (simp add: copy_def crlf_entry_def Let_def)
  show "\<not> contains (render (lf_only ls) rest) [CR, LF]"
    using a by (simp add: no_crlf_render)
next
  assume "\<not> isfile env src"
  then show "copy env src dst True chmod st = (Raise (not_a_file src), [])"
    by (simp add: copy_def Let_def)
qed

text \<open>A file with both endings and an empty line, and a directory.\<close>

theorem copy_crlf_to_lf_witness:
  "container open_session = Some (Container ''dib-temp-1'') \<and>
   fs example_env ''notes.txt'' =
     Some (File 420 (render [(''one'', EndCRLF), (''two'', EndLF), ([], EndCRLF)] ''end'')) \<and>
   list_all plain_line [(''one'', EndCRLF), (''two'', EndLF), ([], EndCRLF)] \<and>
   LF \<notin> set ''end'' \<and>
   snd (copy example_env ''notes.txt'' ''/etc'' True [] open_session) =
     [(''/etc'', [\<lparr> t_name = ''notes.txt'', t_mode = 420, t_size = 12,
                    t_content = ''one'' @ [LF] @ ''two'' @ [LF] @ [LF] @ ''end'' \<rparr>])] \<and>
   \<not> isfile example_env ''conf.d'' \<and>
   copy example_env ''conf.d'' ''/etc'' True [] open_session =
     (Raise (not_a_file ''conf.d''), [])"
proof -
  have h: "container open_session = Some (Container ''dib-temp-1'')"
    by (simp add: open_session_def initial_def)
  have w: "v_workdir open_session = None"
    by (simp add: open_session_def initial_def)
  have f: "fs example_env ''notes.txt'' =
     Some (File 420 (render [(''one'', EndCRLF), (''two'', EndLF), ([], EndCRLF)] ''end''))"
    by (simp add: example_env_def example_fs_def)
  have p: "list_all plain_line [(''one'', EndCRLF), (''two'', EndLF), ([], EndCRLF)]"
    "LF \<notin> set ''end''"
    by (simp_all add: plain_line_def LF_def CR_def)
  have d: "\<not> isfile example_env ''conf.d''"
    by (simp add: isfile_def example_env_def example_fs_def)
  have e: "render (lf_only [(''one'', EndCRLF), (''two'', EndLF), ([], EndCRLF)]) ''end'' =
      ''one'' @ [LF] @ ''two'' @ [LF] @ [LF] @ ''end''"
    by (simp add: render_def lf_only_def)
  have m: "path_base example_env ''notes.txt'' = ''notes.txt''"
    "chmod_update example_env 420 [] = 420"
    by (simp_all add: example_env_def)
  show ?thesis
    using h w f p d e m
      copy_crlf_to_lf [OF h, where env = example_env and src = "''notes.txt''" and st_mode = 420
        and ls = "[(''one'', EndCRLF), (''two'', EndLF), ([], EndCRLF)]" and rest = "''end''"
        and dst = "''/etc''" and chmod = "[]"]
      copy_crlf_to_lf [OF h, where env = example_env and src = "''conf.d''" and dst = "''/etc''"
        and chmod = "[]" and ls = "[]" and rest = "[]" and st_mode = 0]
    by simp
qed

text \<open>
  The claim as stated fails for a file whose content is \<open>a\<close>, CR, CR, LF, \<open>b\<close>, LF: it
  has an LF and a CRLF line ending, and the entry's content is \<open>a\<close>, CR, LF, \<open>b\<close>, LF,
  which still has a CRLF line ending.
\<close>

theorem copy_crlf_counterexample:
  "fs example_env ''stray.txt'' = Some (File 420 (''a'' @ [CR, CR, LF] @ ''b'' @ [LF])) \<and>
   copy example_env ''stray.txt'' ''/etc'' True [] open_session =
     (Return (),
      [(''/etc'', [\<lparr> t_name = ''stray.txt'', t_mode = 420, t_size = 5,
                     t_content = ''a'' @ [CR, LF] @ ''b'' @ [LF] \<rparr>])]) \<and>
   contains (''a'' @ [CR, LF] @ ''b'' @ [LF]) [CR, LF]"
proof -
  have r: "bytes_replace [CR, LF] [LF] (''a'' @ [CR, CR, LF] @ ''b'' @ [LF]) =
      ''a'' @ [CR, LF] @ ''b'' @ [LF]"
    by (simp add: bytes_replace.simps CR_def LF_def)
  have f: "fs example_env ''stray.txt'' = Some (File 420 (''a'' @ [CR, CR, LF] @ ''b'' @ [LF]))"
    by (simp add: example_env_def example_fs_def)
  have i: "isfile example_env ''stray.txt''"
    using f by (simp add: isfile_def)
  have c: "contains (''a'' @ [CR, LF] @ ''b'' @ [LF]) [CR, LF]"
    by (simp add: startswith_def)
  have m: "path_base example_env ''stray.txt'' = ''stray.txt''"
    "chmod_update example_env 420 [] = 420"
    "put_archive example_env = (\<lambda>ct dst archive. True)"
    by (simp_all add: example_env_def)
  show ?thesis
    using r f i c m
    by (simp add: copy_def crlf_entry_def Let_def open_session_def initial_def)
qed

end
